theory Spec2Isabelle
  imports Main
begin

section \<open>Values of the libraries the page calls\<close>

text \<open>
  The page \<^verbatim>\<open>src/pages/index.tsx\<close> is one React component, \<^verbatim>\<open>Home\<close>, with one
  event handler, \<^verbatim>\<open>handlePay\<close>. Everything else is a call into a library. The
  libraries' values are modelled by what the page reads of them.
\<close>

text \<open>
  An ethers (version 5) \<^verbatim>\<open>BigNumber\<close>: an object that wraps an integer of any size.
  \<^verbatim>\<open>a.lt(b)\<close> compares the wrapped integers.
\<close>

datatype BigNumber = BigNumber int

fun lt :: "BigNumber \<Rightarrow> BigNumber \<Rightarrow> bool" where
  "lt (BigNumber a) (BigNumber b) = (a < b)"

text \<open>
  JavaScript's \<^verbatim>\<open>ToBoolean\<close> on a \<^verbatim>\<open>BigNumber\<close>: it is an object, and every
  object is truthy, whatever integer it wraps. On a string: the empty string is falsy.
\<close>

fun truthy_BigNumber :: "BigNumber \<Rightarrow> bool" where
  "truthy_BigNumber (BigNumber n) = True"

definition truthy_string :: "string \<Rightarrow> bool" where
  "truthy_string s = (s \<noteq> [])"

text \<open>What a library call throws, or a promise rejects with.\<close>

datatype js_error =
    ArgumentError string
  | NumericFault string
  | TransferError string

subsection \<open>\<^verbatim>\<open>ethers.utils.parseEther\<close>\<close>

text \<open>
  \<^verbatim>\<open>parseEther(ether)\<close> is \<^verbatim>\<open>parseUnits(ether, 18)\<close>, which is
  \<^verbatim>\<open>parseFixed(value, 18)\<close> of ethers 5, a library function that is not part of the
  repository. It is modelled statement by statement from the library:
  \<^verbatim>\<open>
  if (!value.match(/^-?[0-9.]+$/)) throw "invalid decimal value"
  const negative = (value.substring(0, 1) === "-");
  if (negative) { value = value.substring(1); }
  if (value === ".") throw "missing value"
  const comps = value.split(".");
  if (comps.length > 2) throw "too many decimal points"
  let whole = comps[0], fraction = comps[1];
  if (!whole) { whole = "0"; }
  if (!fraction) { fraction = "0"; }
  while (fraction[fraction.length - 1] === "0")
      fraction = fraction.substring(0, fraction.length - 1);
  if (fraction.length > multiplier.length - 1) throw "fractional component exceeds decimals"
  if (fraction === "") { fraction = "0"; }
  while (fraction.length < multiplier.length - 1) { fraction += "0"; }
  let wei = BigNumber.from(whole).mul(multiplier).add(BigNumber.from(fraction));
  if (negative) { wei = wei.mul(NegativeOne); }
  return wei;
  \<close>
  where \<^verbatim>\<open>multiplier\<close> is the string of \<open>1\<close> followed by \<open>decimals\<close> zeros.
\<close>

definition is_digit :: "char \<Rightarrow> bool" where
  "is_digit c = (c \<in> set ''0123456789'')"

definition decimal_char :: "char \<Rightarrow> bool" where
  "decimal_char c = (is_digit c \<or> c = CHR ''.'')"

definition is_negative :: "string \<Rightarrow> bool" where
  "is_negative v = (take 1 v = ''-'')"

definition unsigned_part :: "string \<Rightarrow> string" where
  "unsigned_part v = (if is_negative v then drop 1 v else v)"

text \<open>The regular expression \<^verbatim>\<open>/^-?[0-9.]+$/\<close>.\<close>

definition matches_decimal :: "string \<Rightarrow> bool" where
  "matches_decimal v = (unsigned_part v \<noteq> [] \<and> list_all decimal_char (unsigned_part v))"

text \<open>\<^verbatim>\<open>value.split(".")\<close>: the pieces between the points; never an empty array.\<close>

fun split_dot :: "string \<Rightarrow> string list" where
  "split_dot [] = [[]]"
| "split_dot (c # cs) =
     (if c = CHR ''.'' then [] # split_dot cs
      else (case split_dot cs of
              [] \<Rightarrow> [[c]]
            | w # ws \<Rightarrow> (c # w) # ws))"

definition trim_trailing_zeros :: "string \<Rightarrow> string" where
  "trim_trailing_zeros f = rev (dropWhile (\<lambda>c. c = CHR ''0'') (rev f))"

definition digit_value :: "char \<Rightarrow> int" where
  "digit_value c = of_char c - 48"

text \<open>\<^verbatim>\<open>BigNumber.from\<close> on a string of decimal digits.\<close>

definition from_digits :: "string \<Rightarrow> int" where
  "from_digits ds = foldl (\<lambda>a c. 10 * a + digit_value c) 0 ds"

definition or_zero :: "string \<Rightarrow> string" where
  "or_zero s = (if s = [] then ''0'' else s)"

definition pad_zeros :: "nat \<Rightarrow> string \<Rightarrow> string" where
  "pad_zeros n f = f @ replicate (n - length f) (CHR ''0'')"

definition parseFixed :: "string \<Rightarrow> nat \<Rightarrow> js_error + BigNumber" where
  "parseFixed v decimals =
     (if \<not> matches_decimal v then Inl (ArgumentError ''invalid decimal value'')
      else if unsigned_part v = ''.'' then Inl (ArgumentError ''missing value'')
      else
        (case split_dot (unsigned_part v) of
           [] \<Rightarrow> Inl (ArgumentError ''invalid decimal value'')
         | comp0 # rest \<Rightarrow>
             if length (comp0 # rest) > 2 then Inl (ArgumentError ''too many decimal points'')
             else
               (let whole = or_zero comp0;
                    fraction = trim_trailing_zeros
                      (case rest of [] \<Rightarrow> ''0'' | comp1 # _ \<Rightarrow> or_zero comp1)
                in if length fraction > decimals
                   then Inl (NumericFault ''fractional component exceeds decimals'')
                   else
                     (let wei = from_digits whole * 10 ^ decimals
                                 + from_digits (pad_zeros decimals (or_zero fraction))
                      in Inr (BigNumber (if is_negative v then - wei else wei))))))"

definition parseEther :: "string \<Rightarrow> js_error + BigNumber" where
  "parseEther ether = parseFixed ether 18"

text \<open>
  A decimal number, as a string: an optional minus sign, then digits with at most one
  decimal point among them, and at least one digit.
\<close>

definition decimal_number :: "string \<Rightarrow> bool" where
  "decimal_number v =
     (list_all decimal_char (unsigned_part v) \<and>
      list_ex is_digit (unsigned_part v) \<and>
      length (filter (\<lambda>c. c = CHR ''.'') (unsigned_part v)) \<le> 1)"

section \<open>The page's data\<close>

text \<open>
  A Lens \<^verbatim>\<open>Profile\<close>, by the fields the page reads: \<^verbatim>\<open>id\<close>, \<^verbatim>\<open>name\<close>
  (may be null), \<^verbatim>\<open>handle\<close>, \<^verbatim>\<open>ownedBy\<close> and the URL of the picture (may be
  missing).
\<close>

record Profile =
  profileId :: string
  name :: "string option"
  handle :: string
  ownedBy :: string
  pictureUrl :: "string option"

text \<open>What \<^verbatim>\<open>useBalance().data\<close> holds once loaded: \<^verbatim>\<open>value\<close> (a BigNumber of wei),
  \<^verbatim>\<open>displayValue\<close> and \<^verbatim>\<open>symbol\<close>.\<close>

record BalanceData =
  value' :: BigNumber
  displayValue :: string
  symbol :: string

text \<open>
  The result of \<^verbatim>\<open>sdk.wallet.transfer(to, amount)\<close>: the promise resolves with a
  transaction result, whose receipt has a \<^verbatim>\<open>transactionHash\<close>, or rejects with an
  error (a synchronous throw inside \<^verbatim>\<open>try\<close> is caught the same way), or never
  settles.
\<close>

record TransactionResult =
  transactionHash :: string

datatype transfer_result =
    Resolves TransactionResult
  | Rejects js_error
  | NeverSettles

text \<open>
  What the hooks return in the render that created the handler: \<^verbatim>\<open>useAddress()\<close>,
  \<^verbatim>\<open>useNetworkMismatch()\<close>, \<^verbatim>\<open>useBalance()\<close>, \<^verbatim>\<open>useSDK()\<close> (undefined when there
  is no SDK; otherwise its \<^verbatim>\<open>wallet.transfer\<close>) and \<^verbatim>\<open>useSearchProfiles()\<close>.
\<close>

record hooks =
  address :: "string option"
  wrongNetwork :: bool
  balance :: "BalanceData option"
  loadingBalance :: bool
  sdk :: "(string \<Rightarrow> string \<Rightarrow> transfer_result) option"
  profiles :: "Profile list option"
  loadingProfiles :: bool

text \<open>The component's own state, one field for each \<^verbatim>\<open>useState\<close>.\<close>

record state =
  search :: string
  selectedProfile :: "Profile option"
  amount :: string
  loadingPay :: bool

text \<open>A notification passed to \<^verbatim>\<open>toast\<close>; \<^verbatim>\<open>variant\<close> is absent on the success one.\<close>

record Toast =
  title :: string
  description :: string
  variant :: "string option"

text \<open>
  One call of \<^verbatim>\<open>handlePay\<close>: how the async function ended (it returned, it threw, so
  that its promise is rejected, or it is still suspended at \<^verbatim>\<open>await\<close>), the state
  after the setters it called, the notifications it showed and the calls of
  \<^verbatim>\<open>sdk.wallet.transfer\<close> it made (recipient, amount), both in order.
\<close>

datatype completion =
    Returned
  | Threw js_error
  | Suspended

record run =
  outcome :: completion
  final :: state
  toasts :: "Toast list"
  transfers :: "(string \<times> string) list"

section \<open>\<^verbatim>\<open>handlePay\<close>\<close>

definition start :: "state \<Rightarrow> run" where
  "start s = \<lparr>outcome = Returned, final = s, toasts = [], transfers = []\<rparr>"

definition toast :: "Toast \<Rightarrow> run \<Rightarrow> run" where
  "toast t r = r\<lparr>toasts := toasts r @ [t]\<rparr>"

definition setLoadingPay :: "bool \<Rightarrow> run \<Rightarrow> run" where
  "setLoadingPay b r = r\<lparr>final := (final r)\<lparr>loadingPay := b\<rparr>\<rparr>"

definition setSelectedProfile :: "Profile option \<Rightarrow> run \<Rightarrow> run" where
  "setSelectedProfile p r = r\<lparr>final := (final r)\<lparr>selectedProfile := p\<rparr>\<rparr>"

definition setAmount :: "string \<Rightarrow> run \<Rightarrow> run" where
  "setAmount a r = r\<lparr>final := (final r)\<lparr>amount := a\<rparr>\<rparr>"

definition setSearch :: "string \<Rightarrow> run \<Rightarrow> run" where
  "setSearch q r = r\<lparr>final := (final r)\<lparr>search := q\<rparr>\<rparr>"

definition called_transfer :: "string \<Rightarrow> string \<Rightarrow> run \<Rightarrow> run" where
  "called_transfer to a r = r\<lparr>transfers := transfers r @ [(to, a)]\<rparr>"

definition invalid_profile :: Toast where
  "invalid_profile =
     \<lparr>title = ''Invalid Profile selected.'',
      description = ''Select a valid profile to send payment to.'',
      variant = Some ''destructive''\<rparr>"

definition invalid_amount :: Toast where
  "invalid_amount =
     \<lparr>title = ''Invalid Amount'',
      description = ''Please enter a valid amount to pay.'',
      variant = Some ''destructive''\<rparr>"

definition insufficient_balance :: Toast where
  "insufficient_balance =
     \<lparr>title = ''Insufficient Balance'',
      description = ''You don't have enough balance to pay'',
      variant = Some ''destructive''\<rparr>"

text \<open>
  The template \<^verbatim>\<open>`Transaction Hash: ${tx?.receipt.transactionHash}`\<close>; \<^verbatim>\<open>tx\<close> is
  undefined when \<^verbatim>\<open>sdk\<close> is.
\<close>

definition funds_sent :: "TransactionResult option \<Rightarrow> Toast" where
  "funds_sent tx =
     \<lparr>title = ''Funds sent successfully!'',
      description = ''Transaction Hash: '' @
        (case tx of None \<Rightarrow> ''undefined'' | Some t \<Rightarrow> transactionHash t),
      variant = None\<rparr>"

definition error_occurred :: Toast where
  "error_occurred =
     \<lparr>title = ''An Error Occurred'',
      description = ''Something went wrong. Please try again.'',
      variant = Some ''destructive''\<rparr>"

text \<open>The statements of the \<^verbatim>\<open>try\<close> block after the \<^verbatim>\<open>await\<close>.\<close>

definition sent :: "TransactionResult option \<Rightarrow> run \<Rightarrow> run" where
  "sent tx r = setSearch [] (setAmount [] (setSelectedProfile None (toast (funds_sent tx) r)))"

text \<open>
  \<^verbatim>\<open>try { ... } catch (error) { ... } finally { setLoadingPay(false); }\<close>. The
  optional call \<^verbatim>\<open>sdk?.wallet.transfer(...)\<close> calls nothing when \<^verbatim>\<open>sdk\<close> is
  undefined, and \<^verbatim>\<open>tx\<close> is then undefined.
\<close>

definition send_funds :: "hooks \<Rightarrow> state \<Rightarrow> Profile \<Rightarrow> run \<Rightarrow> run" where
  "send_funds h s p r =
     (case sdk h of
        None \<Rightarrow> setLoadingPay False (sent None r)
      | Some transfer \<Rightarrow>
          (case transfer (ownedBy p) (amount s) of
             Resolves tx \<Rightarrow>
               setLoadingPay False (sent (Some tx) (called_transfer (ownedBy p) (amount s) r))
           | Rejects e \<Rightarrow>
               setLoadingPay False (toast error_occurred (called_transfer (ownedBy p) (amount s) r))
           | NeverSettles \<Rightarrow>
               (called_transfer (ownedBy p) (amount s) r)\<lparr>outcome := Suspended\<rparr>))"

text \<open>
  The handler reads \<^verbatim>\<open>amount\<close>, \<^verbatim>\<open>selectedProfile\<close>, \<^verbatim>\<open>balance\<close> and \<^verbatim>\<open>sdk\<close>
  of the render that created it. \<^verbatim>\<open>parseEther\<close> is called outside any \<^verbatim>\<open>try\<close>: what
  it throws leaves the handler at once. Each early \<^verbatim>\<open>return\<close> ends the run as it
  stands.
\<close>

definition handlePay :: "hooks \<Rightarrow> state \<Rightarrow> run" where
  "handlePay h s =
     (let r = setLoadingPay True (start s) in
      case parseEther (amount s) of
        Inl e \<Rightarrow> r\<lparr>outcome := Threw e\<rparr>
      | Inr amountBN \<Rightarrow>
          (case selectedProfile s of
             None \<Rightarrow> toast invalid_profile r
           | Some p \<Rightarrow>
               if \<not> truthy_BigNumber amountBN then toast invalid_amount r
               else if (case balance h of
                          None \<Rightarrow> False
                        | Some b \<Rightarrow> lt (value' b) amountBN)
               then toast insufficient_balance r
               else send_funds h s p r))"

section \<open>The configured chain\<close>

text \<open>
  \<^verbatim>\<open>const/chains.ts\<close>. The two chains come from the package \<^verbatim>\<open>@thirdweb-dev/chains\<close>,
  which is not part of the repository; they are given by their chain identifier,
  their name and their \<^verbatim>\<open>testnet\<close> flag.
\<close>

record Chain =
  chainId :: nat
  chainName :: string
  testnet :: bool

definition PolygonZkevm :: Chain where
  "PolygonZkevm = \<lparr>chainId = 1101, chainName = ''Polygon zkEVM'', testnet = False\<rparr>"

definition PolygonZkevmTestnet :: Chain where
  "PolygonZkevmTestnet =
     \<lparr>chainId = 1442, chainName = ''Polygon zkEVM Testnet'', testnet = True\<rparr>"

text \<open>\<^verbatim>\<open>process.env.NODE_ENV === "development"\<close>; the variable may be unset.\<close>

definition IS_DEV_ENV :: "string option \<Rightarrow> bool" where
  "IS_DEV_ENV node_env = (node_env = Some ''development'')"

definition DEVELOPMENT_CHAIN :: Chain where
  "DEVELOPMENT_CHAIN = PolygonZkevmTestnet"

definition PRODUCTION_CHAIN :: Chain where
  "PRODUCTION_CHAIN = PolygonZkevmTestnet"

definition CHAIN :: "string option \<Rightarrow> Chain" where
  "CHAIN node_env = (if IS_DEV_ENV node_env then DEVELOPMENT_CHAIN else PRODUCTION_CHAIN)"

section \<open>What \<^verbatim>\<open>Home\<close> renders\<close>

text \<open>The handlers of the elements that can be clicked.\<close>

datatype click =
    SwitchChain nat
  | SelectProfile Profile
  | ClearProfile
  | Pay

text \<open>
  The prompt: the heading \<^verbatim>\<open>Connect Your Wallet\<close>, the \<^verbatim>\<open>ConnectWallet\<close> button when
  \<^verbatim>\<open>!address\<close>, and the button \<^verbatim>\<open>Switch to Polygon zkEVM\<close>, with its handler, when
  \<^verbatim>\<open>wrongNetwork\<close>.
\<close>

record prompt =
  connectWallet :: bool
  switchButton :: "click option"

text \<open>
  The first fragment, shown while no profile is selected: the balance heading (a
  skeleton while the balance loads) and the search input.
\<close>

record browse_panel =
  balanceHeading :: "string option"
  searchValue :: string

datatype row =
    SkeletonRow
  | ProfileRow Profile click

record pay_panel =
  backButton :: click
  payHeading :: string
  ownerLine :: string
  amountValue :: string
  buttonLabel :: string
  buttonDisabled :: bool
  buttonClick :: click
  balanceLine :: string

record payment_ui =
  browsePanel :: "browse_panel option"
  resultsHeading :: bool
  rows :: "row list"
  payPanel :: "pay_panel option"

datatype view =
    ConnectYourWallet prompt
  | PaymentUI payment_ui

text \<open>\<^verbatim>\<open>{balance?.displayValue} {balance?.symbol}\<close>: an undefined child renders nothing.\<close>

definition balance_text :: "BalanceData option \<Rightarrow> string" where
  "balance_text b =
     (case b of None \<Rightarrow> '' '' | Some d \<Rightarrow> displayValue d @ '' '' @ symbol d)"

text \<open>\<^verbatim>\<open>selectedProfile?.name || selectedProfile?.handle\<close>.\<close>

definition name_or_handle :: "Profile \<Rightarrow> string" where
  "name_or_handle p =
     (case name p of
        None \<Rightarrow> handle p
      | Some n \<Rightarrow> if truthy_string n then n else handle p)"

text \<open>\<^verbatim>\<open>!address\<close>: undefined and the empty string are falsy.\<close>

definition no_address :: "string option \<Rightarrow> bool" where
  "no_address a = (case a of None \<Rightarrow> True | Some x \<Rightarrow> \<not> truthy_string x)"

definition payment :: "hooks \<Rightarrow> state \<Rightarrow> payment_ui" where
  "payment h s =
     (case selectedProfile s of
        None \<Rightarrow>
          \<lparr>browsePanel = Some
             \<lparr>balanceHeading =
                (if \<not> loadingBalance h then Some (balance_text (balance h)) else None),
              searchValue = search s\<rparr>,
           resultsHeading = (case profiles h of None \<Rightarrow> False | Some ps \<Rightarrow> length ps > 0),
           rows =
             (if loadingProfiles h then replicate 10 SkeletonRow
              else (case profiles h of
                      None \<Rightarrow> []
                    | Some ps \<Rightarrow> map (\<lambda>p. ProfileRow p (SelectProfile p)) ps)),
           payPanel = None\<rparr>
      | Some p \<Rightarrow>
          \<lparr>browsePanel = None,
           resultsHeading = False,
           rows = [],
           payPanel = Some
             \<lparr>backButton = ClearProfile,
              payHeading = ''Pay '' @ name_or_handle p,
              ownerLine = ownedBy p,
              amountValue = amount s,
              buttonLabel = (if loadingPay s then ''Paying...'' else ''Pay''),
              buttonDisabled = loadingPay s,
              buttonClick = Pay,
              balanceLine = ''Your Balance: '' @ balance_text (balance h)\<rparr>\<rparr>)"

text \<open>
  \<^verbatim>\<open>if (!address || wrongNetwork) return (prompt); return (payment UI);\<close> with
  \<^verbatim>\<open>onClick={() => switchChain(CHAIN.chainId)}\<close> on the switch button.
\<close>

definition Home :: "string option \<Rightarrow> hooks \<Rightarrow> state \<Rightarrow> view" where
  "Home node_env h s =
     (if no_address (address h) \<or> wrongNetwork h
      then ConnectYourWallet
        \<lparr>connectWallet = no_address (address h),
         switchButton =
           (if wrongNetwork h then Some (SwitchChain (chainId (CHAIN node_env))) else None)\<rparr>
      else PaymentUI (payment h s))"

section \<open>The debounced search\<close>







section \<open>Sample data\<close>

definition alice :: Profile where
  "alice =
     \<lparr>profileId = ''0x01'', name = Some ''Alice'', handle = ''alice.lens'',
      ownedBy = ''0xA11CE'', pictureUrl = None\<rparr>"

text \<open>A balance of one ether.\<close>

definition one_ether :: BalanceData where
  "one_ether =
     \<lparr>value' = BigNumber 1000000000000000000, displayValue = ''1.0'', symbol = ''ETH''\<rparr>"

text \<open>A connected wallet on the right network whose transfers resolve with hash \<open>0xabc\<close>.\<close>

definition paying :: hooks where
  "paying =
     \<lparr>address = Some ''0xB0B'', wrongNetwork = False, balance = Some one_ether,
      loadingBalance = False,
      sdk = Some (\<lambda>to a. Resolves \<lparr>transactionHash = ''0xabc''\<rparr>),
      profiles = Some [alice], loadingProfiles = False\<rparr>"

text \<open>The same wallet when the user refuses to sign: the transfer rejects.\<close>

definition refusing :: hooks where
  "refusing = paying\<lparr>sdk := Some (\<lambda>to a. Rejects (TransferError ''user rejected''))\<rparr>"

text \<open>The state of a fresh page: the initial value of each \<^verbatim>\<open>useState\<close>.\<close>

definition initial :: state where
  "initial = \<lparr>search = [], selectedProfile = None, amount = [], loadingPay = False\<rparr>"

text \<open>The state once \<open>alice\<close> has been found and selected, with an amount typed in.\<close>

definition reviewing :: "string \<Rightarrow> state" where
  "reviewing a =
     \<lparr>search = ''alice'', selectedProfile = Some alice, amount = a, loadingPay = False\<rparr>"


section \<open>The parser\<close>

lemmas run_defs =
  handlePay_def send_funds_def sent_def start_def toast_def setLoadingPay_def
  setSelectedProfile_def setAmount_def setSearch_def called_transfer_def

lemmas sample_defs =
  paying_def refusing_def reviewing_def initial_def alice_def one_ether_def


lemma parseEther_zero: "parseEther ''0'' = Inr (BigNumber 0)"
  by code_simp

lemma parseEther_minus_one: "parseEther ''-1'' = Inr (BigNumber (- 1000000000000000000))"
  by code_simp

lemma parseEther_half: "parseEther ''0.5'' = Inr (BigNumber 500000000000000000)"
  by code_simp

lemma parseEther_two: "parseEther ''2.0'' = Inr (BigNumber 2000000000000000000)"
  by code_simp

lemma length_split_dot:
  "length (split_dot u) = Suc (length (filter (\<lambda>c. c = CHR ''.'') u))"
  by (induction u) (auto split: list.splits)

lemma only_points:
  "list_all decimal_char u \<Longrightarrow> \<not> list_ex is_digit u \<Longrightarrow> filter (\<lambda>c. c = CHR ''.'') u = u"
  by (induction u) (auto simp: decimal_char_def)

lemma is_digit_not_point: "is_digit c \<Longrightarrow> c \<noteq> CHR ''.''"
  by (auto simp: is_digit_def)

text \<open>Whatever \<open>parseFixed\<close> accepts is a decimal number.\<close>

lemma parseFixed_accepts_decimal_number:
  assumes "parseFixed v d = Inr b"
  shows "decimal_number v"
proof -
  let ?u = "unsigned_part v"
  from assms have m: "matches_decimal v"
    by (auto simp: parseFixed_def split: if_splits)
  from assms m have np: "?u \<noteq> ''.''"
    by (auto simp: parseFixed_def split: if_splits)
  from assms m np have "length (split_dot ?u) \<le> 2"
    by (auto simp: parseFixed_def Let_def split: if_splits list.splits)
  then have cnt: "length (filter (\<lambda>c. c = CHR ''.'') ?u) \<le> 1"
    by (simp add: length_split_dot)
  from m have ne: "?u \<noteq> []" and chars: "list_all decimal_char ?u"
    by (simp_all add: matches_decimal_def)
  have "list_ex is_digit ?u"
  proof (rule ccontr)
    assume "\<not> list_ex is_digit ?u"
    with chars have eq: "filter (\<lambda>c. c = CHR ''.'') ?u = ?u"
      by (rule only_points)
    with cnt ne have "length ?u = 1"
      by (cases ?u) auto
    then obtain c where c: "?u = [c]"
      by (cases ?u) auto
    with eq have "c = CHR ''.''"
      by (auto split: if_splits)
    with c np show False by simp
  qed
  with chars cnt show ?thesis
    by (simp add: decimal_number_def)
qed

lemma parseEther_rejects:
  "\<not> decimal_number v \<Longrightarrow> \<exists>e. parseEther v = Inl e"
  by (metis parseEther_def parseFixed_accepts_decimal_number sum.exhaust)

text \<open>
  Conversely, a decimal number is rejected only for having more than eighteen
  significant digits after the point.
\<close>

lemma parseEther_of_decimal_number:
  assumes "decimal_number v"
  shows "(\<exists>b. parseEther v = Inr b) \<or>
         parseEther v = Inl (NumericFault ''fractional component exceeds decimals'')"
proof -
  let ?u = "unsigned_part v"
  from assms have chars: "list_all decimal_char ?u" and dig: "list_ex is_digit ?u"
    and cnt: "length (filter (\<lambda>c. c = CHR ''.'') ?u) \<le> 1"
    by (simp_all add: decimal_number_def)
  from dig have ne: "?u \<noteq> []" by auto
  from dig have np: "?u \<noteq> ''.''"
    by (auto simp: list_ex_iff dest: is_digit_not_point)
  from chars ne have m: "matches_decimal v"
    by (simp add: matches_decimal_def)
  from cnt have len: "length (split_dot ?u) \<le> 2"
    by (simp add: length_split_dot)
  have "split_dot ?u \<noteq> []"
    using length_split_dot [of ?u] by auto
  with len obtain c0 rest where sp: "split_dot ?u = c0 # rest" "length rest \<le> 1"
    by (cases "split_dot ?u") auto
  show ?thesis
    using m np sp by (auto simp: parseEther_def parseFixed_def Let_def)
qed

section \<open>The paths through \<^verbatim>\<open>handlePay\<close>\<close>

lemma truthy_BigNumber_always: "truthy_BigNumber b"
  by (cases b) simp

lemma handlePay_parse_error:
  "parseEther (amount s) = Inl e \<Longrightarrow>
   handlePay h s =
     \<lparr>outcome = Threw e, final = s\<lparr>loadingPay := True\<rparr>, toasts = [], transfers = []\<rparr>"
  by (simp add: handlePay_def start_def setLoadingPay_def)

lemma handlePay_no_profile:
  "parseEther (amount s) = Inr amountBN \<Longrightarrow> selectedProfile s = None \<Longrightarrow>
   handlePay h s = toast invalid_profile (setLoadingPay True (start s))"
  by (simp add: handlePay_def)

lemma handlePay_short_balance:
  "parseEther (amount s) = Inr amountBN \<Longrightarrow> selectedProfile s = Some p \<Longrightarrow>
   balance h = Some b \<Longrightarrow> lt (value' b) amountBN \<Longrightarrow>
   handlePay h s = toast insufficient_balance (setLoadingPay True (start s))"
  by (simp add: handlePay_def truthy_BigNumber_always)

lemma handlePay_sends:
  "parseEther (amount s) = Inr amountBN \<Longrightarrow> selectedProfile s = Some p \<Longrightarrow>
   (case balance h of None \<Rightarrow> True | Some b \<Rightarrow> \<not> lt (value' b) amountBN) \<Longrightarrow>
   handlePay h s = send_funds h s p (setLoadingPay True (start s))"
  by (simp add: handlePay_def truthy_BigNumber_always split: option.splits)

lemma transfers_send_funds:
  "transfers (send_funds h s p (setLoadingPay True (start s))) =
     (case sdk h of None \<Rightarrow> [] | Some transfer \<Rightarrow> [(ownedBy p, amount s)])"
  by (simp add: send_funds_def sent_def start_def toast_def setLoadingPay_def
      setSelectedProfile_def setAmount_def setSearch_def called_transfer_def
      split: option.splits transfer_result.splits)

lemma toasts_send_funds:
  "set (toasts (send_funds h s p (setLoadingPay True (start s)))) \<subseteq>
     {error_occurred} \<union> range funds_sent"
  by (auto simp: send_funds_def sent_def start_def toast_def setLoadingPay_def
      setSelectedProfile_def setAmount_def setSearch_def called_transfer_def
      split: option.splits transfer_result.splits)

text \<open>
  What the code does guarantee before it calls \<^verbatim>\<open>transfer\<close>: a profile is selected,
  the amount parses (to a quantity of any sign), and a known balance is not below it.
  The call is made once, with the owner of the profile and the amount string.
\<close>

lemma handlePay_transfer_guard:
  assumes "transfers (handlePay h s) \<noteq> []"
  shows "\<exists>p amountBN transfer.
           selectedProfile s = Some p \<and> parseEther (amount s) = Inr amountBN \<and>
           sdk h = Some transfer \<and>
           (case balance h of None \<Rightarrow> True | Some b \<Rightarrow> \<not> lt (value' b) amountBN) \<and>
           transfers (handlePay h s) = [(ownedBy p, amount s)]"
proof (cases "parseEther (amount s)")
  case (Inl e)
  with assms show ?thesis
    by (simp add: handlePay_parse_error)
next
  case (Inr amountBN)
  show ?thesis
  proof (cases "selectedProfile s")
    case None
    with Inr assms show ?thesis
      by (simp add: handlePay_no_profile toast_def setLoadingPay_def start_def)
  next
    case (Some p)
    show ?thesis
    proof (cases "case balance h of None \<Rightarrow> True | Some b \<Rightarrow> \<not> lt (value' b) amountBN")
      case True
      with Inr Some have run: "handlePay h s = send_funds h s p (setLoadingPay True (start s))"
        by (rule handlePay_sends)
      with assms obtain transfer where "sdk h = Some transfer"
        by (auto simp: transfers_send_funds split: option.splits)
      with Inr Some True run show ?thesis
        by (simp add: transfers_send_funds)
    next
      case False
      then obtain b where "balance h = Some b" "lt (value' b) amountBN"
        by (auto split: option.splits)
      with Inr Some assms show ?thesis
        by (simp add: handlePay_short_balance toast_def setLoadingPay_def start_def)
    qed
  qed
qed

text \<open>
  The branch \<^verbatim>\<open>if (!amountBN)\<close> is never taken: no run of the handler shows the
  notification \<^verbatim>\<open>Invalid Amount\<close>.
\<close>

lemma handlePay_never_invalid_amount:
  "invalid_amount \<notin> set (toasts (handlePay h s))"
proof (cases "parseEther (amount s)")
  case (Inl e)
  then show ?thesis
    by (simp add: handlePay_parse_error)
next
  case (Inr amountBN)
  show ?thesis
  proof (cases "selectedProfile s")
    case None
    with Inr show ?thesis
      by (simp add: handlePay_no_profile toast_def setLoadingPay_def start_def
          invalid_amount_def invalid_profile_def)
  next
    case (Some p)
    show ?thesis
    proof (cases "case balance h of None \<Rightarrow> True | Some b \<Rightarrow> \<not> lt (value' b) amountBN")
      case True
      with Inr Some have "handlePay h s = send_funds h s p (setLoadingPay True (start s))"
        by (rule handlePay_sends)
      moreover have "invalid_amount \<noteq> error_occurred" "invalid_amount \<notin> range funds_sent"
        by (auto simp: invalid_amount_def error_occurred_def funds_sent_def)
      ultimately show ?thesis
        using toasts_send_funds [of h s p] by auto
    next
      case False
      then obtain b where "balance h = Some b" "lt (value' b) amountBN"
        by (auto split: option.splits)
      with Inr Some show ?thesis
        by (simp add: handlePay_short_balance toast_def setLoadingPay_def start_def
            invalid_amount_def insufficient_balance_def)
    qed
  qed
qed

text \<open>
  The early returns leave the flag set: whenever the amount parses and the handler
  stops at the profile check or at the balance check, it returns with
  \<^verbatim>\<open>loadingPay\<close> still true.
\<close>

lemma handlePay_early_return_flag:
  assumes "parseEther (amount s) = Inr amountBN"
    and "selectedProfile s = None \<or> (\<exists>b. balance h = Some b \<and> lt (value' b) amountBN)"
  shows "outcome (handlePay h s) = Returned \<and> loadingPay (final (handlePay h s))"
proof (cases "selectedProfile s")
  case None
  with assms(1) show ?thesis
    by (simp add: handlePay_no_profile toast_def setLoadingPay_def start_def)
next
  case (Some p)
  with assms(2) obtain b where "balance h = Some b" "lt (value' b) amountBN"
    by auto
  with assms(1) Some show ?thesis
    by (simp add: handlePay_short_balance toast_def setLoadingPay_def start_def)
qed

text \<open>The \<^verbatim>\<open>finally\<close> block clears it once the \<^verbatim>\<open>try\<close> block has been left.\<close>

lemma send_funds_clears_flag:
  "outcome (send_funds h s p (setLoadingPay True (start s))) = Returned \<Longrightarrow>
   \<not> loadingPay (final (send_funds h s p (setLoadingPay True (start s))))"
  by (auto simp: send_funds_def sent_def start_def toast_def setLoadingPay_def
      setSelectedProfile_def setAmount_def setSearch_def called_transfer_def
      split: option.splits transfer_result.splits)

text \<open>
  \<^verbatim>\<open>CHAIN\<close> picks \<^verbatim>\<open>DEVELOPMENT_CHAIN\<close> under \<open>development\<close> and
  \<^verbatim>\<open>PRODUCTION_CHAIN\<close> otherwise; as both are \<^verbatim>\<open>PolygonZkevmTestnet\<close>, it is that
  chain whatever the environment.
\<close>

lemma CHAIN_is_testnet:
  "CHAIN (Some ''development'') = DEVELOPMENT_CHAIN \<and>
   CHAIN (Some ''production'') = PRODUCTION_CHAIN \<and>
   CHAIN node_env = PolygonZkevmTestnet"
  by (simp add: CHAIN_def IS_DEV_ENV_def DEVELOPMENT_CHAIN_def PRODUCTION_CHAIN_def)

section \<open>The debounce\<close>





section \<open>Where \<^verbatim>\<open>handlePay\<close> is called\<close>

text \<open>
  The only call of \<^verbatim>\<open>handlePay\<close> is the click handler of the Pay button, and the
  button is rendered, with the rest of the pay panel, exactly when a profile is
  selected.
\<close>

lemma pay_button_needs_profile:
  "Home node_env h s = PaymentUI ui \<Longrightarrow> (payPanel ui = None) = (selectedProfile s = None)"
  by (auto simp: Home_def payment_def split: if_splits option.splits)

section \<open>The claims\<close>

text \<open>
  C1. Claimed: every amount string that does not parse to a positive quantity is
  rejected with the notification \<^verbatim>\<open>Invalid Amount\<close> and no transfer is made. The
  code, with a profile selected, a balance of one ether and the amount \<open>0\<close>: the
  amount parses to the BigNumber zero, an object and so truthy, the check
  \<^verbatim>\<open>!amountBN\<close> lets it through, and the transfer is called with \<open>0\<close>.
\<close>

theorem handlePay_sends_zero_amount:
  "handlePay paying (reviewing ''0'') =
     \<lparr>outcome = Returned,
      final = \<lparr>search = [], selectedProfile = None, amount = [], loadingPay = False\<rparr>,
      toasts = [funds_sent (Some \<lparr>transactionHash = ''0xabc''\<rparr>)],
      transfers = [(''0xA11CE'', ''0'')]\<rparr>"
  by (simp add: run_defs sample_defs parseEther_zero)

text \<open>
  C2. Once the amount string has parsed to a quantity, a known balance strictly below
  that quantity stops the handler: it returns without calling the transfer, and,
  a profile being selected, the one notification it shows is
  \<^verbatim>\<open>Insufficient Balance\<close>.
\<close>

theorem handlePay_insufficient_balance:
  assumes "parseEther (amount s) = Inr amountBN"
    and "balance h = Some b"
    and "lt (value' b) amountBN"
  shows "outcome (handlePay h s) = Returned \<and>
         transfers (handlePay h s) = [] \<and>
         (selectedProfile s = Some p \<longrightarrow> toasts (handlePay h s) = [insufficient_balance])"
proof (cases "selectedProfile s")
  case None
  with assms(1) show ?thesis
    by (simp add: handlePay_no_profile toast_def setLoadingPay_def start_def)
next
  case (Some q)
  with assms show ?thesis
    by (simp add: handlePay_short_balance toast_def setLoadingPay_def start_def)
qed

text \<open>The spec's scenario: a balance of one ether, a selected profile, the amount \<open>2.0\<close>.\<close>

theorem handlePay_insufficient_balance_witness:
  "parseEther (amount (reviewing ''2.0'')) = Inr (BigNumber 2000000000000000000) \<and>
   balance paying = Some one_ether \<and>
   lt (value' one_ether) (BigNumber 2000000000000000000) \<and>
   selectedProfile (reviewing ''2.0'') = Some alice \<and>
   outcome (handlePay paying (reviewing ''2.0'')) = Returned \<and>
   transfers (handlePay paying (reviewing ''2.0'')) = [] \<and>
   toasts (handlePay paying (reviewing ''2.0'')) = [insufficient_balance]"
proof -
  have 1: "parseEther (amount (reviewing ''2.0'')) = Inr (BigNumber 2000000000000000000)"
    by (simp add: reviewing_def parseEther_two)
  have 2: "balance paying = Some one_ether"
    by (simp add: paying_def)
  have 3: "lt (value' one_ether) (BigNumber 2000000000000000000)"
    by (simp add: one_ether_def)
  have 4: "selectedProfile (reviewing ''2.0'') = Some alice"
    by (simp add: reviewing_def)
  from handlePay_insufficient_balance [OF 1 2 3, of alice] 1 2 3 4 show ?thesis
    by simp
qed




text \<open>
  C4. When \<^verbatim>\<open>handlePay\<close> calls the transfer and the call resolves with a transaction,
  the handler returns having shown one notification, \<^verbatim>\<open>Funds sent successfully!\<close>
  whose description ends with the transaction hash, and the search text, the selected
  profile and the amount are reset to empty, null and empty. When the call rejects,
  with any error, the one notification is \<^verbatim>\<open>An Error Occurred\<close> and the three are
  as they were.
\<close>

theorem handlePay_transfer_outcomes:
  assumes "sdk h = Some transfer"
    and "transfers (handlePay h s) = [(to, a)]"
  shows "(transfer to a = Resolves tx \<longrightarrow>
            outcome (handlePay h s) = Returned \<and>
            toasts (handlePay h s) = [funds_sent (Some tx)] \<and>
            description (funds_sent (Some tx)) = ''Transaction Hash: '' @ transactionHash tx \<and>
            search (final (handlePay h s)) = [] \<and>
            selectedProfile (final (handlePay h s)) = None \<and>
            amount (final (handlePay h s)) = []) \<and>
         (transfer to a = Rejects e \<longrightarrow>
            outcome (handlePay h s) = Returned \<and>
            toasts (handlePay h s) = [error_occurred] \<and>
            search (final (handlePay h s)) = search s \<and>
            selectedProfile (final (handlePay h s)) = selectedProfile s \<and>
            amount (final (handlePay h s)) = amount s)"
proof -
  from assms(2) have "transfers (handlePay h s) \<noteq> []" by simp
  then obtain p amountBN where
    p: "selectedProfile s = Some p" and bn: "parseEther (amount s) = Inr amountBN" and
    ok: "(case balance h of None \<Rightarrow> True | Some b \<Rightarrow> \<not> lt (value' b) amountBN)" and
    call: "transfers (handlePay h s) = [(ownedBy p, amount s)]"
    using handlePay_transfer_guard by blast
  from call assms(2) have args: "to = ownedBy p" "a = amount s" by simp_all
  from bn p ok have run: "handlePay h s = send_funds h s p (setLoadingPay True (start s))"
    by (rule handlePay_sends)
  show ?thesis
    using assms(1) args
    by (simp add: run send_funds_def sent_def start_def toast_def setLoadingPay_def
        setSelectedProfile_def setAmount_def setSearch_def called_transfer_def funds_sent_def)
qed

text \<open>
  The spec's scenario (a balance of one ether, the amount \<open>0.5\<close>, a transfer that
  resolves with hash \<open>0xabc\<close>), and the same with a transfer that rejects.
\<close>

theorem handlePay_transfer_outcomes_witness:
  "sdk paying = Some (\<lambda>to a. Resolves \<lparr>transactionHash = ''0xabc''\<rparr>) \<and>
   transfers (handlePay paying (reviewing ''0.5'')) = [(''0xA11CE'', ''0.5'')] \<and>
   toasts (handlePay paying (reviewing ''0.5'')) =
     [\<lparr>title = ''Funds sent successfully!'', description = ''Transaction Hash: 0xabc'',
       variant = None\<rparr>] \<and>
   final (handlePay paying (reviewing ''0.5'')) = initial \<and>
   sdk refusing = Some (\<lambda>to a. Rejects (TransferError ''user rejected'')) \<and>
   transfers (handlePay refusing (reviewing ''0.5'')) = [(''0xA11CE'', ''0.5'')] \<and>
   toasts (handlePay refusing (reviewing ''0.5'')) = [error_occurred] \<and>
   final (handlePay refusing (reviewing ''0.5'')) = reviewing ''0.5''"
proof -
  let ?ok = "\<lambda>to a :: string. Resolves \<lparr>transactionHash = ''0xabc''\<rparr>"
  let ?no = "\<lambda>to a :: string. Rejects (TransferError ''user rejected'')"
  have 1: "sdk paying = Some ?ok"
    by (simp add: paying_def)
  have 2: "transfers (handlePay paying (reviewing ''0.5'')) = [(''0xA11CE'', ''0.5'')]"
    by (simp add: run_defs sample_defs parseEther_half)
  have 3: "sdk refusing = Some ?no"
    by (simp add: refusing_def)
  have 4: "transfers (handlePay refusing (reviewing ''0.5'')) = [(''0xA11CE'', ''0.5'')]"
    by (simp add: run_defs sample_defs parseEther_half)
  have 5: "loadingPay (final (handlePay paying (reviewing ''0.5''))) = False"
    by (simp add: run_defs sample_defs parseEther_half)
  have 6: "loadingPay (final (handlePay refusing (reviewing ''0.5''))) = False"
    by (simp add: run_defs sample_defs parseEther_half)
  from handlePay_transfer_outcomes [OF 1 2, of "\<lparr>transactionHash = ''0xabc''\<rparr>"]
    handlePay_transfer_outcomes [OF 3 4, of _ "TransferError ''user rejected''"]
    1 2 3 4 5 6
  show ?thesis
    by (simp add: funds_sent_def initial_def reviewing_def)
qed

text \<open>
  C5. Claimed: the transfer is only ever called for an amount that parses to a strictly
  positive quantity. The code, with a profile selected, a balance of one ether and the
  amount \<open>-1\<close>: the amount parses to minus \<open>10^18\<close> wei, the balance is not below it,
  and the transfer is called with \<open>-1\<close>.
\<close>

theorem handlePay_sends_negative_amount:
  "parseEther ''-1'' = Inr (BigNumber (- 1000000000000000000)) \<and>
   selectedProfile (reviewing ''-1'') = Some alice \<and>
   transfers (handlePay paying (reviewing ''-1'')) = [(''0xA11CE'', ''-1'')]"
  by (simp add: run_defs sample_defs parseEther_minus_one)

text \<open>
  C6. Claimed: the flag \<^verbatim>\<open>loadingPay\<close> is false on every exit path. The code, with a
  profile selected, a balance of one ether and the amount \<open>2.0\<close>: the handler
  returns at the balance check, after the notification, with the flag still true.
\<close>

theorem handlePay_early_return_keeps_loading:
  "outcome (handlePay paying (reviewing ''2.0'')) = Returned \<and>
   toasts (handlePay paying (reviewing ''2.0'')) = [insufficient_balance] \<and>
   loadingPay (final (handlePay paying (reviewing ''2.0''))) = True"
  by (simp add: run_defs sample_defs parseEther_two)

text \<open>
  C7. Whenever \<^verbatim>\<open>address\<close> is falsy or \<^verbatim>\<open>wrongNetwork\<close> is true, \<^verbatim>\<open>Home\<close> renders
  the prompt and not the payment UI. The prompt holds the connect button exactly when
  there is no address and the switch button exactly when the network is wrong, so at
  least one of the two; clicking the switch button calls \<^verbatim>\<open>switchChain\<close> with the
  identifier of \<^verbatim>\<open>CHAIN\<close>, which is that of the one configured chain whatever the
  environment.
\<close>

theorem Home_withholds_payment_ui:
  assumes "no_address (address h) \<or> wrongNetwork h"
  shows "\<exists>p. Home node_env h s = ConnectYourWallet p \<and>
             (connectWallet p \<or> switchButton p \<noteq> None) \<and>
             connectWallet p = no_address (address h) \<and>
             switchButton p =
               (if wrongNetwork h then Some (SwitchChain (chainId (CHAIN node_env))) else None) \<and>
             chainId (CHAIN node_env) = chainId PolygonZkevmTestnet"
  using assms
  by (auto simp: Home_def CHAIN_def DEVELOPMENT_CHAIN_def PRODUCTION_CHAIN_def)

text \<open>A wallet on the wrong network, and no wallet at all.\<close>

theorem Home_withholds_payment_ui_witness:
  "(no_address (address (paying\<lparr>wrongNetwork := True\<rparr>)) \<or>
      wrongNetwork (paying\<lparr>wrongNetwork := True\<rparr>)) \<and>
   Home (Some ''production'') (paying\<lparr>wrongNetwork := True\<rparr>) (reviewing ''0.5'') =
     ConnectYourWallet \<lparr>connectWallet = False, switchButton = Some (SwitchChain 1442)\<rparr> \<and>
   (no_address (address (paying\<lparr>address := None\<rparr>)) \<or>
      wrongNetwork (paying\<lparr>address := None\<rparr>)) \<and>
   Home (Some ''production'') (paying\<lparr>address := None\<rparr>) (reviewing ''0.5'') =
     ConnectYourWallet \<lparr>connectWallet = True, switchButton = None\<rparr>"
proof -
  have 1: "no_address (address (paying\<lparr>wrongNetwork := True\<rparr>)) \<or>
      wrongNetwork (paying\<lparr>wrongNetwork := True\<rparr>)"
    by simp
  have 2: "no_address (address (paying\<lparr>address := None\<rparr>)) \<or>
      wrongNetwork (paying\<lparr>address := None\<rparr>)"
    by (simp add: no_address_def)
  have a: "\<not> no_address (address (paying\<lparr>wrongNetwork := True\<rparr>))"
    by (simp add: no_address_def paying_def truthy_string_def)
  have b: "\<not> wrongNetwork (paying\<lparr>address := None\<rparr>)"
    by (simp add: paying_def)
  have c: "chainId PolygonZkevmTestnet = 1442"
    by (simp add: PolygonZkevmTestnet_def)
  from Home_withholds_payment_ui [OF 1, of "Some ''production''" "reviewing ''0.5''"]
    Home_withholds_payment_ui [OF 2, of "Some ''production''" "reviewing ''0.5''"] 1 2 a b c
  show ?thesis
    by auto
qed



text \<open>
  C9. Claimed: the chain resolved for \<open>development\<close> is a test network, the one
  resolved for \<open>production\<close> is a production network, and the two differ. The code
  under \<open>production\<close>: \<^verbatim>\<open>PRODUCTION_CHAIN\<close> is \<^verbatim>\<open>PolygonZkevmTestnet\<close>, as
  \<^verbatim>\<open>DEVELOPMENT_CHAIN\<close> is, so the resolved chain is a test network and the same as
  under \<open>development\<close>; \<^verbatim>\<open>PolygonZkevm\<close> is imported and never used.
\<close>

theorem CHAIN_same_in_both_environments:
  "CHAIN (Some ''production'') = PolygonZkevmTestnet \<and>
   testnet (CHAIN (Some ''production'')) \<and>
   CHAIN (Some ''production'') = CHAIN (Some ''development'') \<and>
   CHAIN (Some ''production'') \<noteq> PolygonZkevm"
  by (simp add: CHAIN_def DEVELOPMENT_CHAIN_def PRODUCTION_CHAIN_def PolygonZkevmTestnet_def
      PolygonZkevm_def)

text \<open>
  C10. For every amount string that is not a decimal number, the handler throws what
  \<^verbatim>\<open>parseEther\<close> throws: it shows no notification, calls no transfer, and leaves
  the state as it was but for \<^verbatim>\<open>loadingPay\<close>, which is true.
\<close>

theorem handlePay_throws_on_malformed_amount:
  assumes "\<not> decimal_number (amount s)"
  shows "\<exists>e. parseEther (amount s) = Inl e \<and>
             handlePay h s =
               \<lparr>outcome = Threw e, final = s\<lparr>loadingPay := True\<rparr>, toasts = [],
                transfers = []\<rparr>"
proof -
  from assms obtain e where "parseEther (amount s) = Inl e"
    using parseEther_rejects by blast
  then show ?thesis
    using handlePay_parse_error by blast
qed

text \<open>The empty string, the amount of a fresh page.\<close>

theorem handlePay_throws_on_malformed_amount_witness:
  "amount initial = [] \<and> \<not> decimal_number (amount initial) \<and>
   (\<exists>e. parseEther (amount initial) = Inl e \<and>
        handlePay paying initial =
          \<lparr>outcome = Threw e, final = initial\<lparr>loadingPay := True\<rparr>, toasts = [],
           transfers = []\<rparr>)"
proof -
  have h: "\<not> decimal_number (amount initial)"
    by (simp add: initial_def decimal_number_def unsigned_part_def is_negative_def)
  from handlePay_throws_on_malformed_amount [OF h, of paying] h show ?thesis
    by (simp add: initial_def)
qed

end
